theory Spec2Isabelle
  imports Complex_Main "HOL-Library.Word" "HOL-Library.Log_Nat"
begin

section \<open>Strings of UTF-16 code units\<close>

text \<open>
  A JavaScript string is a sequence of 16-bit code units.  \<open>js\<close> turns an ASCII
  literal into such a sequence; it is only used to write down concrete inputs.
\<close>

type_synonym code_unit = "16 word"
type_synonym jsstring = "code_unit list"

definition js :: "string \<Rightarrow> jsstring" where
  "js s = map (\<lambda>c. of_nat (of_char c)) s"

text \<open>
  The code units matched by \<open>\s\<close> in a regular expression and stripped by
  \<open>String.prototype.trim\<close>: ECMAScript WhiteSpace and LineTerminator.
\<close>

definition is_js_space :: "code_unit \<Rightarrow> bool" where
  "is_js_space c \<longleftrightarrow>
     c = 0x09 \<or> c = 0x0A \<or> c = 0x0B \<or> c = 0x0C \<or> c = 0x0D \<or> c = 0x20 \<or>
     c = 0xA0 \<or> c = 0x1680 \<or> (0x2000 \<le> c \<and> c \<le> 0x200A) \<or>
     c = 0x2028 \<or> c = 0x2029 \<or> c = 0x202F \<or> c = 0x205F \<or> c = 0x3000 \<or>
     c = 0xFEFF"

definition trim :: "jsstring \<Rightarrow> jsstring" where
  "trim s = rev (dropWhile is_js_space (rev (dropWhile is_js_space s)))"

section \<open>Numbers: the conversions of ECMAScript\<close>

text \<open>
  \<open>round_double a b\<close> is the double nearest to the positive rational \<open>a / b\<close>,
  ties to even; a result of magnitude \<open>2 ^ 1024\<close> or more is \<open>+Infinity\<close>.
  The exponent \<open>p\<close> of the last bit is that of a 53-bit significand, and not less
  than \<open>-1074\<close> (subnormal numbers).
\<close>

definition round_half_even :: "int \<Rightarrow> int \<Rightarrow> int" where
  "round_half_even a b =
     (let q = a div b; r = a mod b in
      if 2 * r < b then q
      else if b < 2 * r then q + 1
      else if even q then q else q + 1)"

definition floor_log2 :: "int \<Rightarrow> int \<Rightarrow> int" where
  "floor_log2 a b =
     (let d = bitlen a - bitlen b in
      if 0 \<le> d then (if b * 2 ^ nat d \<le> a then d else d - 1)
      else (if b \<le> a * 2 ^ nat (- d) then d else d - 1))"

definition last_bit_exponent :: "int \<Rightarrow> int \<Rightarrow> int" where
  "last_bit_exponent a b = max (floor_log2 a b - 52) (- 1074)"

definition round_scaled :: "int \<Rightarrow> int \<Rightarrow> int \<Rightarrow> int" where
  "round_scaled a b p =
     (if 0 \<le> p then round_half_even a (b * 2 ^ nat p)
      else round_half_even (a * 2 ^ nat (- p)) b)"

definition scale2 :: "int \<Rightarrow> int \<Rightarrow> rat" where
  "scale2 m p = (if 0 \<le> p then of_int (m * 2 ^ nat p) else of_int m / of_int (2 ^ nat (- p)))"

datatype number = Finite rat | NegZero | PosInfinity | NegInfinity

definition round_double :: "int \<Rightarrow> int \<Rightarrow> number" where
  "round_double a b =
     (if a = 0 then Finite 0
      else let p = last_bit_exponent a b;
               x = scale2 (round_scaled a b p) p
           in if 2 ^ 1024 \<le> x then PosInfinity else Finite x)"

text \<open>The Number value of the decimal \<open>s * 10 ^ e\<close>, for \<open>s \<ge> 0\<close>.\<close>

definition decimal_value :: "int \<Rightarrow> int \<Rightarrow> number" where
  "decimal_value s e = (if 0 \<le> e then round_double (s * 10 ^ nat e) 1
                        else round_double s (10 ^ nat (- e)))"

fun negate :: "number \<Rightarrow> number" where
  "negate (Finite q) = (if q = 0 then NegZero else Finite (- q))"
| "negate NegZero = Finite 0"
| "negate PosInfinity = NegInfinity"
| "negate NegInfinity = PosInfinity"

fun is_finite :: "number \<Rightarrow> bool" where
  "is_finite (Finite q) = True"
| "is_finite NegZero = True"
| "is_finite PosInfinity = False"
| "is_finite NegInfinity = False"

text \<open>
  \<open>Number::toString\<close>.  For a positive double \<open>x = a / b\<close> ECMAScript takes
  integers \<open>n\<close>, \<open>k\<close>, \<open>s\<close> with \<open>k\<close> digits in \<open>s\<close>, with \<open>s * 10 ^ (n - k)\<close> of
  Number value \<open>x\<close>, and \<open>k\<close> as small as possible.  \<open>shortest_digits\<close> looks for
  them with \<open>k = 1, 2, \<dots>\<close>: the candidates with \<open>k\<close> digits are the two
  neighbours \<open>lo\<close> and \<open>lo + 1\<close> of \<open>x / 10 ^ (n - k)\<close>, and of two candidates that
  both convert to \<open>x\<close> the nearer one is taken.  A candidate \<open>lo + 1\<close> that ends in
  \<open>0\<close>, after a carry, is taken without that digit.  The result is \<open>s\<close> and the
  exponent \<open>e = n - k\<close> of its last digit.  The number of rounds is bounded by \<open>fuel\<close>;
  \<open>shortest_digits_found\<close> below shows that the bound used by \<open>positive_to_string\<close>
  is never reached for a double.
\<close>

fun digit_count :: "int \<Rightarrow> int" where
  "digit_count a = (if a < 10 then 1 else digit_count (a div 10) + 1)"

declare digit_count.simps [simp del]

definition decimal_exponent :: "int \<Rightarrow> int \<Rightarrow> int" where
  "decimal_exponent a b =
     (let d = digit_count a - digit_count b in
      if 0 \<le> d then (if b * 10 ^ nat d \<le> a then d + 1 else d)
      else (if b \<le> a * 10 ^ nat (- d) then d + 1 else d))"

definition scaled_floor :: "int \<Rightarrow> int \<Rightarrow> int \<Rightarrow> int" where
  "scaled_floor a b e = (if 0 \<le> e then a div (b * 10 ^ nat e) else (a * 10 ^ nat (- e)) div b)"

definition nearer_above :: "int \<Rightarrow> int \<Rightarrow> int \<Rightarrow> bool" where
  "nearer_above a b e =
     (let A = (if 0 \<le> e then a else a * 10 ^ nat (- e));
          B = (if 0 \<le> e then b * 10 ^ nat e else b)
      in B < 2 * (A mod B) \<or> (B = 2 * (A mod B) \<and> odd (A div B)))"

definition converts_to :: "int \<Rightarrow> int \<Rightarrow> int \<Rightarrow> int \<Rightarrow> bool" where
  "converts_to s e a b \<longleftrightarrow> decimal_value s e = Finite (of_int a / of_int b)"

definition strip_zero :: "int \<times> int \<Rightarrow> int \<times> int" where
  "strip_zero se = (if 0 < fst se \<and> fst se mod 10 = 0
                    then (fst se div 10, snd se + 1) else se)"

fun shortest_digits :: "int \<Rightarrow> int \<Rightarrow> int \<Rightarrow> nat \<Rightarrow> int \<times> int" where
  "shortest_digits a b e 0 = (0, e)"
| "shortest_digits a b e (Suc fuel) =
     (let lo = scaled_floor a b e;
          hi = strip_zero (lo + 1, e);
          ok_lo = converts_to lo e a b;
          ok_hi = converts_to (fst hi) (snd hi) a b
      in if ok_hi \<and> (nearer_above a b e \<or> \<not> ok_lo) then hi
         else if ok_lo then (lo, e)
         else shortest_digits a b (e - 1) fuel)"

fun decimal_digits :: "int \<Rightarrow> code_unit list" where
  "decimal_digits n = (if n < 10 then [of_nat (48 + nat n)]
                       else decimal_digits (n div 10) @ [of_nat (48 + nat (n mod 10))])"

declare decimal_digits.simps [simp del]

text \<open>
  The layout of the digits \<open>ds\<close> (there are \<open>k\<close> of them) with the decimal point
  after the \<open>n\<close>-th digit: plain, with a point, with leading zeros, or in exponential
  notation, as \<open>Number::toString\<close> prescribes.
\<close>

definition layout :: "code_unit list \<Rightarrow> int \<Rightarrow> code_unit list" where
  "layout ds n =
     (if int (length ds) \<le> n \<and> n \<le> 21 then ds @ replicate (nat (n - int (length ds))) 0x30
      else if 0 < n \<and> n \<le> 21 then take (nat n) ds @ [0x2E] @ drop (nat n) ds
      else if - 6 < n \<and> n \<le> 0 then [0x30, 0x2E] @ replicate (nat (- n)) 0x30 @ ds
      else (if length ds = 1 then ds else take 1 ds @ [0x2E] @ drop 1 ds)
           @ [0x65] @ (if 0 \<le> n - 1 then [0x2B] else [0x2D]) @ decimal_digits \<bar>n - 1\<bar>)"

definition positive_to_string :: "int \<Rightarrow> int \<Rightarrow> code_unit list" where
  "positive_to_string a b =
     (let n = decimal_exponent a b;
          se = shortest_digits a b (n - 1) (1075 + nat \<bar>n\<bar>);
          ds = decimal_digits (fst se)
      in layout ds (snd se + int (length ds)))"

fun Number_toString :: "number \<Rightarrow> code_unit list" where
  "Number_toString (Finite q) =
     (if q = 0 then [0x30]
      else if q < 0 then [0x2D] @ positive_to_string (- fst (quotient_of q)) (snd (quotient_of q))
      else positive_to_string (fst (quotient_of q)) (snd (quotient_of q)))"
| "Number_toString NegZero = [0x30]"
| "Number_toString PosInfinity = js ''Infinity''"
| "Number_toString NegInfinity = js ''-Infinity''"

section \<open>JSON text: the lexical grammar\<close>

text \<open>JSON white space is tab, line feed, carriage return and space only.\<close>

definition is_json_ws :: "code_unit \<Rightarrow> bool" where
  "is_json_ws c \<longleftrightarrow> c = 0x09 \<or> c = 0x0A \<or> c = 0x0D \<or> c = 0x20"

definition is_digit :: "code_unit \<Rightarrow> bool" where
  "is_digit c \<longleftrightarrow> 0x30 \<le> c \<and> c \<le> 0x39"

definition digits_value :: "code_unit list \<Rightarrow> int" where
  "digits_value ds = foldl (\<lambda>n c. 10 * n + (uint c - 48)) 0 ds"

text \<open>
  A number literal is \<open>-? (0 | [1-9][0-9]*) (. [0-9]+)? ([eE] [+-]? [0-9]+)?\<close>.
  Each scanner returns what it read and the rest of the text, or \<open>None\<close> when the
  text is malformed.
\<close>

definition scan_fraction :: "code_unit list \<Rightarrow> (code_unit list \<times> code_unit list) option" where
  "scan_fraction cs =
     (case cs of
        [] \<Rightarrow> Some ([], [])
      | c # r \<Rightarrow>
          if c = 0x2E
          then (if takeWhile is_digit r = [] then None
                else Some (takeWhile is_digit r, dropWhile is_digit r))
          else Some ([], cs))"

definition scan_exponent_digits :: "bool \<Rightarrow> code_unit list \<Rightarrow> (int \<times> code_unit list) option" where
  "scan_exponent_digits neg r =
     (if takeWhile is_digit r = [] then None
      else Some (if neg then - digits_value (takeWhile is_digit r)
                 else digits_value (takeWhile is_digit r), dropWhile is_digit r))"

definition scan_exponent :: "code_unit list \<Rightarrow> (int \<times> code_unit list) option" where
  "scan_exponent cs =
     (case cs of
        [] \<Rightarrow> Some (0, [])
      | c # r \<Rightarrow>
          if c = 0x65 \<or> c = 0x45
          then (case r of
                  [] \<Rightarrow> None
                | d # r' \<Rightarrow>
                    if d = 0x2B then scan_exponent_digits False r'
                    else if d = 0x2D then scan_exponent_digits True r'
                    else scan_exponent_digits False r)
          else Some (0, cs))"

definition scan_unsigned :: "code_unit list \<Rightarrow> (number \<times> code_unit list) option" where
  "scan_unsigned cs =
     (if takeWhile is_digit cs = [] \<or>
         (hd (takeWhile is_digit cs) = 0x30 \<and> 1 < length (takeWhile is_digit cs))
      then None
      else case scan_fraction (dropWhile is_digit cs) of
        None \<Rightarrow> None
      | Some (fp, r1) \<Rightarrow>
          (case scan_exponent r1 of
             None \<Rightarrow> None
           | Some (ex, r2) \<Rightarrow>
               Some (decimal_value (digits_value (takeWhile is_digit cs @ fp))
                                   (ex - int (length fp)), r2)))"

definition lex_number :: "code_unit list \<Rightarrow> (number \<times> code_unit list) option" where
  "lex_number cs =
     (case cs of
        [] \<Rightarrow> None
      | c # r \<Rightarrow>
          if c = 0x2D
          then (case scan_unsigned r of None \<Rightarrow> None | Some (x, r') \<Rightarrow> Some (negate x, r'))
          else scan_unsigned cs)"

text \<open>String literals: the escapes of JSON, and \<open>\uXXXX\<close> with four hex digits.\<close>

definition hex_value :: "code_unit \<Rightarrow> nat option" where
  "hex_value c =
     (if 0x30 \<le> c \<and> c \<le> 0x39 then Some (unat c - 48)
      else if 0x61 \<le> c \<and> c \<le> 0x66 then Some (unat c - 87)
      else if 0x41 \<le> c \<and> c \<le> 0x46 then Some (unat c - 55)
      else None)"

definition hex4 :: "code_unit \<Rightarrow> code_unit \<Rightarrow> code_unit \<Rightarrow> code_unit \<Rightarrow> code_unit option" where
  "hex4 a b c d =
     (case (hex_value a, hex_value b, hex_value c, hex_value d) of
        (Some h3, Some h2, Some h1, Some h0) \<Rightarrow> Some (of_nat (((h3 * 16 + h2) * 16 + h1) * 16 + h0))
      | _ \<Rightarrow> None)"

definition unescape :: "code_unit \<Rightarrow> code_unit option" where
  "unescape c =
     (if c = 0x22 then Some 0x22
      else if c = 0x5C then Some 0x5C
      else if c = 0x2F then Some 0x2F
      else if c = 0x62 then Some 0x08
      else if c = 0x66 then Some 0x0C
      else if c = 0x6E then Some 0x0A
      else if c = 0x72 then Some 0x0D
      else if c = 0x74 then Some 0x09
      else None)"

text \<open>
  \<open>lex_string\<close> reads the characters of a string literal after its opening quote,
  up to and including the closing quote.
\<close>

fun lex_string :: "code_unit list \<Rightarrow> (jsstring \<times> code_unit list) option" where
  "lex_string [] = None"
| "lex_string (c # cs) =
     (if c = 0x22 then Some ([], cs)
      else if c = 0x5C then
        (case cs of
           [] \<Rightarrow> None
         | e # cs' \<Rightarrow>
             if e = 0x75 then
               (case cs' of
                  h3 # h2 # h1 # h0 # cs'' \<Rightarrow>
                    (case hex4 h3 h2 h1 h0 of
                       None \<Rightarrow> None
                     | Some u \<Rightarrow>
                         (case lex_string cs'' of
                            None \<Rightarrow> None
                          | Some (s, r) \<Rightarrow> Some (u # s, r)))
                | _ \<Rightarrow> None)
             else
               (case unescape e of
                  None \<Rightarrow> None
                | Some u \<Rightarrow>
                    (case lex_string cs' of
                       None \<Rightarrow> None
                     | Some (s, r) \<Rightarrow> Some (u # s, r))))
      else if c < 0x20 then None
      else (case lex_string cs of
              None \<Rightarrow> None
            | Some (s, r) \<Rightarrow> Some (c # s, r)))"

datatype token =
    TLBrace | TRBrace | TLBracket | TRBracket | TComma | TColon
  | TString jsstring | TNumber number | TTrue | TFalse | TNull

lemma lex_string_length: "lex_string cs = Some (s, r) \<Longrightarrow> length r < length cs"
proof (induction cs arbitrary: s r rule: lex_string.induct)
  case 1
  then show ?case by simp
next
  case (2 c cs)
  show ?case
    using "2.prems" "2.IH"
    by (fastforce split: if_splits list.splits option.splits)
qed

lemma scan_exponent_length: "scan_exponent cs = Some (x, r) \<Longrightarrow> length r \<le> length cs"
  by (auto simp: scan_exponent_def scan_exponent_digits_def le_Suc_eq
      intro: le_trans [OF length_dropWhile_le]
      split: list.splits if_splits)

lemma scan_fraction_length: "scan_fraction cs = Some (x, r) \<Longrightarrow> length r \<le> length cs"
  by (auto simp: scan_fraction_def le_Suc_eq intro: le_trans [OF length_dropWhile_le]
      split: list.splits if_splits)

lemma scan_unsigned_length:
  assumes "scan_unsigned cs = Some (x, r)"
  shows "length r < length cs"
proof -
  from assms obtain fp r1 ex where
    digits: "takeWhile is_digit cs \<noteq> []" and
    frac: "scan_fraction (dropWhile is_digit cs) = Some (fp, r1)" and
    expo: "scan_exponent r1 = Some (ex, r)"
    by (auto simp: scan_unsigned_def split: if_splits option.splits)
  have "length (takeWhile is_digit cs) + length (dropWhile is_digit cs) = length cs"
    by (metis length_append takeWhile_dropWhile_id)
  moreover have "0 < length (takeWhile is_digit cs)"
    using digits by simp
  moreover have "length r \<le> length (dropWhile is_digit cs)"
    using scan_fraction_length [OF frac] scan_exponent_length [OF expo] by simp
  ultimately show ?thesis by linarith
qed

lemma lex_number_length: "lex_number cs = Some (x, r) \<Longrightarrow> length r < length cs"
  by (auto simp: lex_number_def less_Suc_eq dest: scan_unsigned_length
      split: list.splits if_splits option.splits)

text \<open>
  The tokens of a text, or \<open>None\<close> when some character starts no token.
\<close>

function tokenize :: "code_unit list \<Rightarrow> token list option" where
  "tokenize [] = Some []"
| "tokenize (c # cs) =
     (if is_json_ws c then tokenize cs
      else if c = 0x7B then map_option (Cons TLBrace) (tokenize cs)
      else if c = 0x7D then map_option (Cons TRBrace) (tokenize cs)
      else if c = 0x5B then map_option (Cons TLBracket) (tokenize cs)
      else if c = 0x5D then map_option (Cons TRBracket) (tokenize cs)
      else if c = 0x2C then map_option (Cons TComma) (tokenize cs)
      else if c = 0x3A then map_option (Cons TColon) (tokenize cs)
      else if c = 0x22 then
        (case lex_string cs of
           None \<Rightarrow> None
         | Some (s, r) \<Rightarrow> map_option (Cons (TString s)) (tokenize r))
      else if c = 0x2D \<or> is_digit c then
        (case lex_number (c # cs) of
           None \<Rightarrow> None
         | Some (x, r) \<Rightarrow> map_option (Cons (TNumber x)) (tokenize r))
      else if take 4 (c # cs) = js ''true'' then map_option (Cons TTrue) (tokenize (drop 3 cs))
      else if take 5 (c # cs) = js ''false'' then map_option (Cons TFalse) (tokenize (drop 4 cs))
      else if take 4 (c # cs) = js ''null'' then map_option (Cons TNull) (tokenize (drop 3 cs))
      else None)"
  by pat_completeness auto
termination
  by (relation "measure length")
     (auto dest: lex_string_length lex_number_length simp: less_Suc_eq_le)

section \<open>Values held in \<open>jsonData\<close>\<close>

text \<open>
  A Number is an IEEE 754 double.  The finite non-zero doubles and \<open>+0\<close> are
  represented by their exact rational value, \<open>-0\<close> and the two infinities by
  constructors of their own (\<open>JSON.parse\<close> never yields \<open>NaN\<close>).

  An object is the list of its own properties in the order in which
  \<open>Object.values\<close>, \<open>Object.keys\<close> and \<open>JSON.stringify\<close> enumerate them.
\<close>

datatype jsvalue =
    JNull
  | JBoolean bool
  | JNumber number
  | JString jsstring
  | JArray "jsvalue list"
  | JObject "(jsstring \<times> jsvalue) list"

section \<open>Property order of objects\<close>

text \<open>
  An array index is a canonical numeric string of value at most \<open>2 ^ 32 - 2\<close>.  The
  own properties of an ordinary object are enumerated with the array indices first, in
  ascending numeric order, and the other keys after them, in the order of their
  creation.  \<open>CreateDataProperty\<close> on an existing key replaces the value and keeps
  the position.
\<close>

definition is_array_index :: "jsstring \<Rightarrow> bool" where
  "is_array_index k \<longleftrightarrow>
     k \<noteq> [] \<and> list_all is_digit k \<and> (if hd k = 0x30 then length k = 1 else True) \<and>
     digits_value k \<le> 4294967294"

fun update_property :: "jsstring \<Rightarrow> jsvalue \<Rightarrow> (jsstring \<times> jsvalue) list \<Rightarrow> (jsstring \<times> jsvalue) list" where
  "update_property k v [] = []"
| "update_property k v (m # ms) =
     (if fst m = k then (k, v) # ms else m # update_property k v ms)"

fun insert_index :: "jsstring \<Rightarrow> jsvalue \<Rightarrow> (jsstring \<times> jsvalue) list \<Rightarrow> (jsstring \<times> jsvalue) list" where
  "insert_index k v [] = [(k, v)]"
| "insert_index k v (m # ms) =
     (if is_array_index (fst m) \<and> digits_value (fst m) < digits_value k
      then m # insert_index k v ms
      else (k, v) # m # ms)"

definition CreateDataProperty :: "(jsstring \<times> jsvalue) list \<Rightarrow> jsstring \<Rightarrow> jsvalue \<Rightarrow> (jsstring \<times> jsvalue) list" where
  "CreateDataProperty ms k v =
     (if k \<in> fst ` set ms then update_property k v ms
      else if is_array_index k then insert_index k v ms
      else ms @ [(k, v)])"

section \<open>JSON.parse\<close>

text \<open>
  The syntactic grammar, as a machine that reads one token at a time.  The stack holds
  the containers that are open around the current position, each waiting for a value:
  an array with the elements read so far, or an object with the properties created so
  far and the key whose value is being read.
\<close>

datatype frame =
    InArray "jsvalue list"
  | InObject "(jsstring \<times> jsvalue) list" jsstring

datatype mode =
    ExpectValue
  | ArrayStart
  | ArrayNext "jsvalue list"
  | ObjectStart
  | ObjectKey "(jsstring \<times> jsvalue) list"
  | ObjectColon "(jsstring \<times> jsvalue) list" jsstring
  | ObjectNext "(jsstring \<times> jsvalue) list"
  | Done jsvalue

fun deliver :: "jsvalue \<Rightarrow> frame list \<Rightarrow> mode \<times> frame list" where
  "deliver v [] = (Done v, [])"
| "deliver v (InArray xs # st) = (ArrayNext (xs @ [v]), st)"
| "deliver v (InObject ms k # st) = (ObjectNext (CreateDataProperty ms k v), st)"

fun begin_value :: "token \<Rightarrow> frame list \<Rightarrow> (mode \<times> frame list) option" where
  "begin_value TNull st = Some (deliver JNull st)"
| "begin_value TTrue st = Some (deliver (JBoolean True) st)"
| "begin_value TFalse st = Some (deliver (JBoolean False) st)"
| "begin_value (TNumber x) st = Some (deliver (JNumber x) st)"
| "begin_value (TString s) st = Some (deliver (JString s) st)"
| "begin_value TLBracket st = Some (ArrayStart, st)"
| "begin_value TLBrace st = Some (ObjectStart, st)"
| "begin_value TRBracket st = None"
| "begin_value TRBrace st = None"
| "begin_value TComma st = None"
| "begin_value TColon st = None"

fun step :: "mode \<Rightarrow> frame list \<Rightarrow> token \<Rightarrow> (mode \<times> frame list) option" where
  "step ExpectValue st t = begin_value t st"
| "step ArrayStart st t =
     (if t = TRBracket then Some (deliver (JArray []) st) else begin_value t (InArray [] # st))"
| "step (ArrayNext xs) st t =
     (if t = TComma then Some (ExpectValue, InArray xs # st)
      else if t = TRBracket then Some (deliver (JArray xs) st)
      else None)"
| "step ObjectStart st t =
     (case t of
        TRBrace \<Rightarrow> Some (deliver (JObject []) st)
      | TString k \<Rightarrow> Some (ObjectColon [] k, st)
      | _ \<Rightarrow> None)"
| "step (ObjectKey ms) st t =
     (case t of TString k \<Rightarrow> Some (ObjectColon ms k, st) | _ \<Rightarrow> None)"
| "step (ObjectColon ms k) st t =
     (if t = TColon then Some (ExpectValue, InObject ms k # st) else None)"
| "step (ObjectNext ms) st t =
     (if t = TComma then Some (ObjectKey ms, st)
      else if t = TRBrace then Some (deliver (JObject ms) st)
      else None)"
| "step (Done v) st t = None"

fun run :: "mode \<Rightarrow> frame list \<Rightarrow> token list \<Rightarrow> jsvalue option" where
  "run m st [] = (case m of Done v \<Rightarrow> Some v | _ \<Rightarrow> None)"
| "run m st (t # ts) =
     (case step m st t of None \<Rightarrow> None | Some (m', st') \<Rightarrow> run m' st' ts)"

text \<open>\<open>JSON.parse\<close>: the value of a text, or \<open>None\<close> where it throws a SyntaxError.\<close>

definition JSON_parse :: "jsstring \<Rightarrow> jsvalue option" where
  "JSON_parse text = (case tokenize text of None \<Rightarrow> None | Some ts \<Rightarrow> run ExpectValue [] ts)"

section \<open>JSON.stringify\<close>

definition hex_digit :: "nat \<Rightarrow> code_unit" where
  "hex_digit n = (if n < 10 then of_nat (48 + n) else of_nat (87 + n))"

definition unicode_escape :: "code_unit \<Rightarrow> code_unit list" where
  "unicode_escape c =
     [0x5C, 0x75, hex_digit (unat c div 4096), hex_digit (unat c div 256 mod 16),
      hex_digit (unat c div 16 mod 16), hex_digit (unat c mod 16)]"

definition is_high_surrogate :: "code_unit \<Rightarrow> bool" where
  "is_high_surrogate c \<longleftrightarrow> 0xD800 \<le> c \<and> c \<le> 0xDBFF"

definition is_low_surrogate :: "code_unit \<Rightarrow> bool" where
  "is_low_surrogate c \<longleftrightarrow> 0xDC00 \<le> c \<and> c \<le> 0xDFFF"

text \<open>
  \<open>QuoteJSONString\<close> works on the code points of the string: a surrogate pair is
  copied, a lone surrogate and a control character are escaped.
\<close>

fun quote_body :: "jsstring \<Rightarrow> code_unit list" where
  "quote_body [] = []"
| "quote_body (c # cs) =
     (if c = 0x08 then [0x5C, 0x62] @ quote_body cs
      else if c = 0x09 then [0x5C, 0x74] @ quote_body cs
      else if c = 0x0A then [0x5C, 0x6E] @ quote_body cs
      else if c = 0x0C then [0x5C, 0x66] @ quote_body cs
      else if c = 0x0D then [0x5C, 0x72] @ quote_body cs
      else if c = 0x22 then [0x5C, 0x22] @ quote_body cs
      else if c = 0x5C then [0x5C, 0x5C] @ quote_body cs
      else if c < 0x20 then unicode_escape c @ quote_body cs
      else if is_high_surrogate c then
        (case cs of
           [] \<Rightarrow> unicode_escape c
         | d # ds \<Rightarrow>
             if is_low_surrogate d then c # d # quote_body ds
             else unicode_escape c @ quote_body cs)
      else if is_low_surrogate c then unicode_escape c @ quote_body cs
      else c # quote_body cs)"

definition QuoteJSONString :: "jsstring \<Rightarrow> code_unit list" where
  "QuoteJSONString s = [0x22] @ quote_body s @ [0x22]"

fun join :: "'a list \<Rightarrow> 'a list list \<Rightarrow> 'a list" where
  "join sep [] = []"
| "join sep [x] = x"
| "join sep (x # y # zs) = x @ sep @ join sep (y # zs)"

text \<open>
  \<open>SerializeJSONProperty\<close> with its \<open>gap\<close> and current \<open>indent\<close>;
  \<open>SerializeJSONArray\<close> and \<open>SerializeJSONObject\<close> are its last two equations.
\<close>

fun SerializeJSONProperty :: "code_unit list \<Rightarrow> code_unit list \<Rightarrow> jsvalue \<Rightarrow> code_unit list" where
  "SerializeJSONProperty gap indent JNull = js ''null''"
| "SerializeJSONProperty gap indent (JBoolean b) = (if b then js ''true'' else js ''false'')"
| "SerializeJSONProperty gap indent (JNumber x) =
     (if is_finite x then Number_toString x else js ''null'')"
| "SerializeJSONProperty gap indent (JString s) = QuoteJSONString s"
| "SerializeJSONProperty gap indent (JArray xs) =
     (if xs = [] then js ''[]''
      else if gap = [] then
        [0x5B] @ join [0x2C] (map (SerializeJSONProperty gap (indent @ gap)) xs) @ [0x5D]
      else
        [0x5B, 0x0A] @ (indent @ gap)
        @ join ([0x2C, 0x0A] @ (indent @ gap)) (map (SerializeJSONProperty gap (indent @ gap)) xs)
        @ [0x0A] @ indent @ [0x5D])"
| "SerializeJSONProperty gap indent (JObject ms) =
     (if ms = [] then js ''{}''
      else if gap = [] then
        [0x7B] @ join [0x2C]
          (map (\<lambda>m. QuoteJSONString (fst m) @ [0x3A]
                      @ SerializeJSONProperty gap (indent @ gap) (snd m)) ms) @ [0x7D]
      else
        [0x7B, 0x0A] @ (indent @ gap)
        @ join ([0x2C, 0x0A] @ (indent @ gap))
            (map (\<lambda>m. QuoteJSONString (fst m) @ [0x3A, 0x20]
                        @ SerializeJSONProperty gap (indent @ gap) (snd m)) ms)
        @ [0x0A] @ indent @ [0x7D])"

text \<open>
  \<open>JSON.stringify(value, null, space)\<close> for a \<open>space\<close> that is a number or absent:
  the gap is \<open>min 10 space\<close> spaces.
\<close>

definition JSON_stringify :: "jsvalue \<Rightarrow> nat option \<Rightarrow> code_unit list" where
  "JSON_stringify v space =
     SerializeJSONProperty (case space of None \<Rightarrow> [] | Some n \<Rightarrow> replicate (min 10 n) 0x20) [] v"

section \<open>analyzeJSON\<close>

record stats =
  objects :: nat
  arrays :: nat

text \<open>
  \<open>traverse\<close> is the inner function of \<open>analyzeJSON\<close>; the two counters it
  increments are passed through as a state.  \<open>forEach\<close> is a left fold.
\<close>

fun traverse :: "jsvalue \<Rightarrow> stats \<Rightarrow> stats" where
  "traverse (JArray xs) s = fold traverse xs (s\<lparr>arrays := arrays s + 1\<rparr>)"
| "traverse (JObject ms) s = fold traverse (map snd ms) (s\<lparr>objects := objects s + 1\<rparr>)"
| "traverse JNull s = s"
| "traverse (JBoolean b) s = s"
| "traverse (JNumber n) s = s"
| "traverse (JString t) s = s"

definition analyzeJSON :: "jsvalue \<Rightarrow> stats" where
  "analyzeJSON data = traverse data \<lparr>objects = 0, arrays = 0\<rparr>"

text \<open>
  The reference count, written from the specification: an array node counts one array
  and its elements are counted, a keyed node counts one object and its values are
  counted, a scalar counts nothing.
\<close>

fun ref_objectCount :: "jsvalue \<Rightarrow> nat" where
  "ref_objectCount (JArray xs) = sum_list (map ref_objectCount xs)"
| "ref_objectCount (JObject ms) = 1 + sum_list (map (\<lambda>m. ref_objectCount (snd m)) ms)"
| "ref_objectCount JNull = 0"
| "ref_objectCount (JBoolean b) = 0"
| "ref_objectCount (JNumber n) = 0"
| "ref_objectCount (JString t) = 0"

fun ref_arrayCount :: "jsvalue \<Rightarrow> nat" where
  "ref_arrayCount (JArray xs) = 1 + sum_list (map ref_arrayCount xs)"
| "ref_arrayCount (JObject ms) = sum_list (map (\<lambda>m. ref_arrayCount (snd m)) ms)"
| "ref_arrayCount JNull = 0"
| "ref_arrayCount (JBoolean b) = 0"
| "ref_arrayCount (JNumber n) = 0"
| "ref_arrayCount (JString t) = 0"

section \<open>The editor and its operations\<close>

text \<open>
  The state of the page that the operations read and write: the value of the editor
  element, the three variables of the script (\<open>currentTheme\<close> plays no part here),
  the entry \<open>jsonToolContent\<close> of \<open>localStorage\<close>, and the texts and classes of
  the status elements.  The numbers shown in the statistics elements are kept as
  numbers: \<open>jsonSize\<close> is the byte count before \<open>formatFileSize\<close> renders it, the
  others the counts before \<open>toLocaleString\<close>.
\<close>

record editor_state =
  editor_value :: jsstring
  editor_className :: jsstring
  isValidJSON :: bool
  jsonData :: jsvalue
  storage_content :: "jsstring option"
  jsonStatus :: jsstring
  errorDisplay_text :: jsstring
  errorDisplay_show :: bool
  successDisplay_text :: jsstring
  successDisplay_show :: bool
  jsonSize :: nat
  jsonLines :: nat
  jsonObjects :: nat
  jsonArrays :: nat
  notification :: "(jsstring \<times> jsstring) option"

text \<open>
  \<open>new Blob([text]).size\<close>: the length of the UTF-8 encoding, in which a surrogate
  pair takes four bytes and a lone surrogate is replaced by U+FFFD (three bytes).
\<close>

fun utf8_length :: "jsstring \<Rightarrow> nat" where
  "utf8_length [] = 0"
| "utf8_length (c # cs) =
     (if c < 0x80 then 1 + utf8_length cs
      else if c < 0x800 then 2 + utf8_length cs
      else if is_high_surrogate c then
        (case cs of
           [] \<Rightarrow> 3
         | d # ds \<Rightarrow> if is_low_surrogate d then 4 + utf8_length ds else 3 + utf8_length cs)
      else 3 + utf8_length cs)"

text \<open>\<open>text.split(sep)\<close> for a separator of one code unit.\<close>

fun split :: "code_unit \<Rightarrow> jsstring \<Rightarrow> jsstring list" where
  "split sep [] = [[]]"
| "split sep (c # cs) =
     (if c = sep then [] # split sep cs
      else (case split sep cs of [] \<Rightarrow> [[c]] | seg # segs \<Rightarrow> (c # seg) # segs))"

definition updateStatistics :: "jsstring \<Rightarrow> editor_state \<Rightarrow> editor_state" where
  "updateStatistics text s =
     s\<lparr>jsonSize := utf8_length text,
       jsonLines := (if text = [] then 0 else length (split 0x0A text))\<rparr>"

definition updateJSONStatistics :: "jsvalue \<Rightarrow> editor_state \<Rightarrow> editor_state" where
  "updateJSONStatistics data s =
     s\<lparr>jsonObjects := objects (analyzeJSON data), jsonArrays := arrays (analyzeJSON data)\<rparr>"

definition showNotification :: "jsstring \<Rightarrow> jsstring \<Rightarrow> editor_state \<Rightarrow> editor_state" where
  "showNotification message type s = s\<lparr>notification := Some (message, type)\<rparr>"

text \<open>
  \<open>errorMessage.match(/line (\d+)/i)\<close> and \<open>/position (\d+)/i\<close>: the word and a
  space, in any letter case, followed by a digit, somewhere in the message.
\<close>

definition lower_ascii :: "code_unit \<Rightarrow> code_unit" where
  "lower_ascii c = (if 0x41 \<le> c \<and> c \<le> 0x5A then c + 0x20 else c)"

definition matches_here :: "jsstring \<Rightarrow> jsstring \<Rightarrow> bool" where
  "matches_here w t \<longleftrightarrow>
     map lower_ascii (take (length w) t) = w \<and>
     (case drop (length w) t of [] \<Rightarrow> False | d # r \<Rightarrow> is_digit d)"

fun matches :: "jsstring \<Rightarrow> jsstring \<Rightarrow> bool" where
  "matches w [] = False"
| "matches w (c # cs) = (matches_here w (c # cs) \<or> matches w cs)"

text \<open>
  \<open>validateJSON\<close>.  The message of the SyntaxError that \<open>JSON.parse\<close> throws is
  chosen by the host; \<open>message_of\<close> gives it for each rejected text.
\<close>

definition validateJSON :: "(jsstring \<Rightarrow> jsstring) \<Rightarrow> editor_state \<Rightarrow> editor_state" where
  "validateJSON message_of s =
     (let text = trim (editor_value s);
          s1 = updateStatistics text (s\<lparr>storage_content := Some text\<rparr>)
      in if text = [] then
           s1\<lparr>editor_className := js ''json-editor'',
              errorDisplay_show := False,
              successDisplay_show := False,
              jsonStatus := js ''Ready'',
              isValidJSON := False,
              jsonData := JNull\<rparr>
         else
           (case JSON_parse text of
              Some v \<Rightarrow>
                updateJSONStatistics v
                  (s1\<lparr>jsonData := v,
                      isValidJSON := True,
                      editor_className := js ''json-editor success'',
                      errorDisplay_show := False,
                      successDisplay_text := 0x2705 # js '' Valid JSON'',
                      successDisplay_show := True,
                      jsonStatus := js ''Valid''\<rparr>)
            | None \<Rightarrow>
                s1\<lparr>isValidJSON := False,
                   jsonData := JNull,
                   editor_className := js ''json-editor error'',
                   successDisplay_show := False,
                   errorDisplay_text :=
                     (if matches (js ''line '') (message_of text)
                         \<or> matches (js ''position '') (message_of text)
                      then 0x274C # js '' Syntax Error: '' @ message_of text
                      else 0x274C # js '' Invalid JSON: '' @ message_of text),
                   errorDisplay_show := True,
                   jsonStatus := js ''Invalid''\<rparr>))"

text \<open>\<open>!jsonData\<close> is the negation of \<open>ToBoolean\<close>.\<close>

fun ToBoolean :: "jsvalue \<Rightarrow> bool" where
  "ToBoolean JNull = False"
| "ToBoolean (JBoolean b) = b"
| "ToBoolean (JNumber x) = (x \<noteq> Finite 0 \<and> x \<noteq> NegZero)"
| "ToBoolean (JString t) = (t \<noteq> [])"
| "ToBoolean (JArray xs) = True"
| "ToBoolean (JObject ms) = True"

definition formatJSON :: "(jsstring \<Rightarrow> jsstring) \<Rightarrow> editor_state \<Rightarrow> editor_state" where
  "formatJSON message_of s =
     (if \<not> isValidJSON s \<or> \<not> ToBoolean (jsonData s) then
        showNotification (js ''Please enter valid JSON first!'') (js ''error'') s
      else
        showNotification (js ''JSON formatted successfully!'') (js ''success'')
          (validateJSON message_of (s\<lparr>editor_value := JSON_stringify (jsonData s) (Some 2)\<rparr>)))"

definition minifyJSON :: "(jsstring \<Rightarrow> jsstring) \<Rightarrow> editor_state \<Rightarrow> editor_state" where
  "minifyJSON message_of s =
     (if \<not> isValidJSON s \<or> \<not> ToBoolean (jsonData s) then
        showNotification (js ''Please enter valid JSON first!'') (js ''error'') s
      else
        showNotification (js ''JSON minified successfully!'') (js ''success'')
          (validateJSON message_of (s\<lparr>editor_value := JSON_stringify (jsonData s) None\<rparr>)))"

text \<open>
  The two replacements of \<open>compressJSON\<close>.  \<open>replace(/\s+/g, ' ')\<close> puts one
  space for every maximal run of white space.  In
  \<open>replace(/\s*([{}[\],:])\s*/g, '$1')\<close> a match at a position takes the white space
  there, one structural character and the white space after it; where the white space is
  not followed by a structural character there is no match, the character is copied and
  the search goes on at the next position.
\<close>

definition is_structural :: "code_unit \<Rightarrow> bool" where
  "is_structural c \<longleftrightarrow>
     c = 0x7B \<or> c = 0x7D \<or> c = 0x5B \<or> c = 0x5D \<or> c = 0x2C \<or> c = 0x3A"

function replace_spaces :: "jsstring \<Rightarrow> jsstring" where
  "replace_spaces [] = []"
| "replace_spaces (c # cs) =
     (if is_js_space c then 0x20 # replace_spaces (dropWhile is_js_space cs)
      else c # replace_spaces cs)"
  by pat_completeness auto
termination
  by (relation "measure length") (auto simp: less_Suc_eq_le length_dropWhile_le)

lemma length_after_dropWhile:
  assumes "dropWhile P xs = d # ds"
  shows "length (dropWhile Q ds) < length xs"
proof -
  have "length (dropWhile Q ds) \<le> length ds"
    by (rule length_dropWhile_le)
  moreover have "length (d # ds) \<le> length xs"
    using length_dropWhile_le [of P xs] assms by simp
  ultimately show ?thesis by simp
qed

function replace_structural :: "jsstring \<Rightarrow> jsstring" where
  "replace_structural [] = []"
| "replace_structural (c # cs) =
     (case dropWhile is_js_space (c # cs) of
        [] \<Rightarrow> c # replace_structural cs
      | d # ds \<Rightarrow>
          if is_structural d then d # replace_structural (dropWhile is_js_space ds)
          else c # replace_structural cs)"
  by pat_completeness auto
termination
proof (relation "measure length")
  fix c cs d ds
  assume "dropWhile is_js_space (c # cs) = d # ds"
  then have "length (dropWhile is_js_space ds) < length (c # cs)"
    by (rule length_after_dropWhile)
  then show "(dropWhile is_js_space ds, c # cs) \<in> measure length"
    by simp
qed simp_all

definition compressJSON :: "(jsstring \<Rightarrow> jsstring) \<Rightarrow> editor_state \<Rightarrow> editor_state" where
  "compressJSON message_of s =
     (if trim (editor_value s) = [] then
        showNotification (js ''Please enter some JSON first!'') (js ''error'') s
      else
        showNotification (js ''Whitespace removed successfully!'') (js ''success'')
          (validateJSON message_of
             (s\<lparr>editor_value :=
                  trim (replace_structural (replace_spaces (trim (editor_value s))))\<rparr>)))"

text \<open>The object literal of \<open>loadSampleJSON\<close>.\<close>

definition sampleJSON :: jsvalue where
  "sampleJSON = JObject
     [(js ''name'', JString (js ''John Doe'')),
      (js ''age'', JNumber (Finite 30)),
      (js ''email'', JString (js ''john.doe@example.com'')),
      (js ''address'', JObject
         [(js ''street'', JString (js ''123 Main St'')),
          (js ''city'', JString (js ''New York'')),
          (js ''zipCode'', JString (js ''10001'')),
          (js ''country'', JString (js ''USA''))]),
      (js ''hobbies'', JArray
         [JString (js ''reading''), JString (js ''coding''),
          JString (js ''traveling''), JString (js ''photography'')]),
      (js ''isActive'', JBoolean True),
      (js ''skills'', JArray
         [JObject [(js ''name'', JString (js ''JavaScript'')), (js ''level'', JString (js ''Advanced''))],
          JObject [(js ''name'', JString (js ''Python'')), (js ''level'', JString (js ''Intermediate''))],
          JObject [(js ''name'', JString (js ''React'')), (js ''level'', JString (js ''Advanced''))]]),
      (js ''socialMedia'', JObject
         [(js ''twitter'', JString (js ''@johndoe'')),
          (js ''linkedin'', JString (js ''linkedin.com/in/johndoe'')),
          (js ''github'', JString (js ''github.com/johndoe''))])]"

definition loadSampleJSON :: "(jsstring \<Rightarrow> jsstring) \<Rightarrow> editor_state \<Rightarrow> editor_state" where
  "loadSampleJSON message_of s =
     showNotification (js ''Sample JSON loaded!'') (js ''success'')
       (validateJSON message_of (s\<lparr>editor_value := JSON_stringify sampleJSON (Some 2)\<rparr>))"

text \<open>
  The state in which the script starts: \<open>isValidJSON = false\<close>, \<open>jsonData = null\<close>,
  an empty editor and nothing stored.  The texts of the status elements before the first
  validation come from the page and are left empty here.
\<close>

definition initial_state :: editor_state where
  "initial_state =
     \<lparr>editor_value = [], editor_className = [], isValidJSON = False, jsonData = JNull,
      storage_content = None, jsonStatus = [], errorDisplay_text = [],
      errorDisplay_show = False, successDisplay_text = [], successDisplay_show = False,
      jsonSize = 0, jsonLines = 0, jsonObjects = 0, jsonArrays = 0, notification = None\<rparr>"

section \<open>Reference definitions written from the specification\<close>

text \<open>
  The textual transform the specification gives for compress: first every run of white
  space becomes a single space, then every white space character that stands next to a
  structural character is removed.  \<open>spec_remove_adjacent\<close> carries the character
  before the current position.
\<close>

fun spec_collapse :: "jsstring \<Rightarrow> jsstring" where
  "spec_collapse [] = []"
| "spec_collapse [c] = (if is_js_space c then [0x20] else [c])"
| "spec_collapse (c # d # cs) =
     (if is_js_space c then
        (if is_js_space d then spec_collapse (d # cs) else 0x20 # spec_collapse (d # cs))
      else c # spec_collapse (d # cs))"

fun spec_remove_adjacent :: "code_unit option \<Rightarrow> jsstring \<Rightarrow> jsstring" where
  "spec_remove_adjacent before [] = []"
| "spec_remove_adjacent before (c # cs) =
     (if is_js_space c \<and>
         ((case before of None \<Rightarrow> False | Some b \<Rightarrow> is_structural b) \<or>
          (case cs of [] \<Rightarrow> False | d # ds \<Rightarrow> is_structural d))
      then spec_remove_adjacent (Some c) cs
      else c # spec_remove_adjacent (Some c) cs)"

definition spec_compress :: "jsstring \<Rightarrow> jsstring" where
  "spec_compress text = spec_remove_adjacent None (spec_collapse text)"

text \<open>
  The two serializations as the specification describes them: \<open>spec_format\<close> puts
  every element and every member on a line of its own, behind two spaces for each level
  of nesting; \<open>spec_minify\<close> writes no white space between the tokens.  Both write
  members and elements in the order in which the value holds them.
\<close>

fun scalar_text :: "jsvalue \<Rightarrow> code_unit list" where
  "scalar_text JNull = js ''null''"
| "scalar_text (JBoolean b) = (if b then js ''true'' else js ''false'')"
| "scalar_text (JNumber x) = (if is_finite x then Number_toString x else js ''null'')"
| "scalar_text (JString t) = QuoteJSONString t"
| "scalar_text (JArray xs) = []"
| "scalar_text (JObject ms) = []"

fun spec_format :: "nat \<Rightarrow> jsvalue \<Rightarrow> code_unit list" where
  "spec_format level (JArray xs) =
     (if xs = [] then js ''[]''
      else [0x5B, 0x0A]
        @ join [0x2C, 0x0A]
            (map (\<lambda>x. replicate (2 * (level + 1)) 0x20 @ spec_format (level + 1) x) xs)
        @ [0x0A] @ replicate (2 * level) 0x20 @ [0x5D])"
| "spec_format level (JObject ms) =
     (if ms = [] then js ''{}''
      else [0x7B, 0x0A]
        @ join [0x2C, 0x0A]
            (map (\<lambda>m. replicate (2 * (level + 1)) 0x20 @ QuoteJSONString (fst m)
                        @ [0x3A, 0x20] @ spec_format (level + 1) (snd m)) ms)
        @ [0x0A] @ replicate (2 * level) 0x20 @ [0x7D])"
| "spec_format level JNull = scalar_text JNull"
| "spec_format level (JBoolean b) = scalar_text (JBoolean b)"
| "spec_format level (JNumber x) = scalar_text (JNumber x)"
| "spec_format level (JString t) = scalar_text (JString t)"

fun spec_minify :: "jsvalue \<Rightarrow> code_unit list" where
  "spec_minify (JArray xs) = [0x5B] @ join [0x2C] (map spec_minify xs) @ [0x5D]"
| "spec_minify (JObject ms) =
     [0x7B] @ join [0x2C] (map (\<lambda>m. QuoteJSONString (fst m) @ [0x3A] @ spec_minify (snd m)) ms)
     @ [0x7D]"
| "spec_minify JNull = scalar_text JNull"
| "spec_minify (JBoolean b) = scalar_text (JBoolean b)"
| "spec_minify (JNumber x) = scalar_text (JNumber x)"
| "spec_minify (JString t) = scalar_text (JString t)"

section \<open>Properties of analyzeJSON\<close>

lemma fold_traverse_counts:
  assumes "\<And>x s. x \<in> set xs \<Longrightarrow>
    traverse x s = s\<lparr>objects := objects s + ref_objectCount x,
                      arrays := arrays s + ref_arrayCount x\<rparr>"
  shows "fold traverse xs s =
    s\<lparr>objects := objects s + sum_list (map ref_objectCount xs),
      arrays := arrays s + sum_list (map ref_arrayCount xs)\<rparr>"
  using assms
proof (induction xs arbitrary: s)
  case Nil
  show ?case by simp
next
  case (Cons x xs)
  have step: "traverse x s = s\<lparr>objects := objects s + ref_objectCount x,
                                arrays := arrays s + ref_arrayCount x\<rparr>"
    using Cons.prems by simp
  have rest: "\<And>s'. fold traverse xs s' =
      s'\<lparr>objects := objects s' + sum_list (map ref_objectCount xs),
         arrays := arrays s' + sum_list (map ref_arrayCount xs)\<rparr>"
    using Cons.IH Cons.prems by simp
  show ?case by (simp add: step rest add.assoc)
qed

lemma traverse_counts:
  "traverse v s = s\<lparr>objects := objects s + ref_objectCount v,
                    arrays := arrays s + ref_arrayCount v\<rparr>"
proof (induction v arbitrary: s)
  case (JArray xs)
  have "fold traverse xs (s\<lparr>arrays := arrays s + 1\<rparr>) =
      (s\<lparr>arrays := arrays s + 1\<rparr>)
        \<lparr>objects := objects (s\<lparr>arrays := arrays s + 1\<rparr>) + sum_list (map ref_objectCount xs),
         arrays := arrays (s\<lparr>arrays := arrays s + 1\<rparr>) + sum_list (map ref_arrayCount xs)\<rparr>"
    by (rule fold_traverse_counts) (rule JArray.IH)
  then show ?case by simp
next
  case (JObject ms)
  have "fold traverse (map snd ms) (s\<lparr>objects := objects s + 1\<rparr>) =
      (s\<lparr>objects := objects s + 1\<rparr>)
        \<lparr>objects := objects (s\<lparr>objects := objects s + 1\<rparr>)
            + sum_list (map ref_objectCount (map snd ms)),
         arrays := arrays (s\<lparr>objects := objects s + 1\<rparr>)
            + sum_list (map ref_arrayCount (map snd ms))\<rparr>"
  proof (rule fold_traverse_counts)
    fix x s'
    assume "x \<in> set (map snd ms)"
    then obtain m where "m \<in> set ms" and "x = snd m" by auto
    have "x \<in> Basic_BNFs.snds m" using \<open>x = snd m\<close> by (cases m) simp
    with \<open>m \<in> set ms\<close> show "traverse x s' =
        s'\<lparr>objects := objects s' + ref_objectCount x, arrays := arrays s' + ref_arrayCount x\<rparr>"
      by (rule JObject.IH)
  qed
  then show ?case by (simp add: comp_def)
qed simp_all

text \<open>
  Claim C6.  For every parsed JSON value, \<open>analyzeJSON\<close> returns exactly the
  reference recursive counts: one per array node and one per object node, scalars
  (string, number, boolean, null) uncounted.
\<close>

theorem analyzeJSON_reference:
  "analyzeJSON v = \<lparr>objects = ref_objectCount v, arrays = ref_arrayCount v\<rparr>"
  by (simp add: analyzeJSON_def traverse_counts)

section \<open>Evaluation of the model on concrete texts\<close>

lemmas lex_eval = js_def is_json_ws_def is_digit_def lex_number_def scan_unsigned_def
  scan_fraction_def scan_exponent_def scan_exponent_digits_def digits_value_def unescape_def
  hex4_def hex_value_def is_js_space_def trim_def







section \<open>Properties of validateJSON\<close>



text \<open>
  Claim C7, as the code has it.  Every call of \<open>validateJSON\<close>, whatever the outcome,
  stores the trimmed text of the editor (not the raw text) and recomputes the byte size as
  the UTF-8 length of the trimmed text and the line count as the number of segments
  between line feeds of the trimmed text, zero when it is empty.
\<close>

theorem validateJSON_persists_trimmed:
  "storage_content (validateJSON message_of s) = Some (trim (editor_value s)) \<and>
   jsonSize (validateJSON message_of s) = utf8_length (trim (editor_value s)) \<and>
   jsonLines (validateJSON message_of s) =
     (if trim (editor_value s) = [] then 0 else length (split 0x0A (trim (editor_value s))))"
  by (simp add: validateJSON_def updateStatistics_def updateJSONStatistics_def Let_def
      split: option.split)

theorem validateJSON_persists_trimmed_witness:
  "storage_content (validateJSON (\<lambda>t. []) (initial_state\<lparr>editor_value := js '' null''\<rparr>))
     = Some (js ''null'') \<and>
   jsonSize (validateJSON (\<lambda>t. []) (initial_state\<lparr>editor_value := js '' null''\<rparr>)) = 4 \<and>
   jsonLines (validateJSON (\<lambda>t. []) (initial_state\<lparr>editor_value := js '' null''\<rparr>)) = 1"
proof -
  have "trim (editor_value (initial_state\<lparr>editor_value := js '' null''\<rparr>)) = js ''null''"
    by (simp add: lex_eval)
  then show ?thesis
    using validateJSON_persists_trimmed
      [of "\<lambda>t. []" "initial_state\<lparr>editor_value := js '' null''\<rparr>"]
    by (simp add: js_def)
qed

text \<open>
  The raw text is not what is stored: for the editor text \<open>" null"\<close>, with a leading
  space, the entry holds \<open>"null"\<close>.
\<close>

theorem validateJSON_raw_text_counterexample:
  "storage_content (validateJSON (\<lambda>t. []) (initial_state\<lparr>editor_value := js '' null''\<rparr>))
     \<noteq> Some (editor_value (initial_state\<lparr>editor_value := js '' null''\<rparr>))"
  by (simp add: validateJSON_def updateStatistics_def updateJSONStatistics_def Let_def lex_eval
      split: option.split)

section \<open>The guard of formatJSON and minifyJSON\<close>

text \<open>
  Claim C9.  When \<open>isValidJSON\<close> is false, \<open>formatJSON\<close> and \<open>minifyJSON\<close> only
  show the error notification \<open>Please enter valid JSON first!\<close>: they return a state,
  and the state is the one they were given but for the notification, so the text of the
  editor and the stored text are unchanged.
\<close>

theorem format_minify_need_valid_document:
  assumes "\<not> isValidJSON s"
  shows "formatJSON message_of s =
           s\<lparr>notification := Some (js ''Please enter valid JSON first!'', js ''error'')\<rparr> \<and>
         minifyJSON message_of s =
           s\<lparr>notification := Some (js ''Please enter valid JSON first!'', js ''error'')\<rparr> \<and>
         editor_value (formatJSON message_of s) = editor_value s \<and>
         editor_value (minifyJSON message_of s) = editor_value s"
  using assms by (simp add: formatJSON_def minifyJSON_def showNotification_def)

theorem format_minify_need_valid_document_witness:
  "\<not> isValidJSON initial_state \<and>
   formatJSON (\<lambda>t. []) initial_state =
     initial_state\<lparr>notification := Some (js ''Please enter valid JSON first!'', js ''error'')\<rparr> \<and>
   minifyJSON (\<lambda>t. []) initial_state =
     initial_state\<lparr>notification := Some (js ''Please enter valid JSON first!'', js ''error'')\<rparr>"
proof -
  have invalid: "\<not> isValidJSON initial_state"
    by (simp add: initial_state_def)
  show ?thesis
    using invalid format_minify_need_valid_document [OF invalid, of "\<lambda>t. []"] by simp
qed



section \<open>Properties of compressJSON\<close>

lemma structural_not_space: "is_structural c \<Longrightarrow> \<not> is_js_space c"
  by (auto simp: is_structural_def is_js_space_def)

lemma replace_spaces_collapse: "replace_spaces xs = spec_collapse xs"
proof (induction xs rule: spec_collapse.induct)
  case 1
  show ?case by simp
next
  case (2 c)
  show ?case by simp
next
  case (3 c d cs)
  show ?case
  proof (cases "is_js_space c")
    case True
    then show ?thesis using 3 by (cases "is_js_space d") simp_all
  next
    case False
    then show ?thesis using 3 by simp
  qed
qed

text \<open>Texts in which white space is single spaces only.\<close>

fun single_spaced :: "jsstring \<Rightarrow> bool" where
  "single_spaced [] = True"
| "single_spaced [c] = (if is_js_space c then c = 0x20 else True)"
| "single_spaced (c # d # cs) =
     ((if is_js_space c then c = 0x20 \<and> \<not> is_js_space d else True) \<and> single_spaced (d # cs))"

lemma single_spaced_Cons: "\<not> is_js_space c \<Longrightarrow> single_spaced (c # ys) = single_spaced ys"
  by (cases ys) simp_all

lemma single_spaced_tail: "single_spaced (c # cs) \<Longrightarrow> single_spaced cs"
  by (cases cs) simp_all

lemma hd_spec_collapse:
  "\<not> is_js_space c \<Longrightarrow> spec_collapse (c # cs) = c # spec_collapse cs"
  by (cases cs) simp_all

lemma single_spaced_collapse: "single_spaced (spec_collapse xs)"
proof (induction xs rule: spec_collapse.induct)
  case 1
  show ?case by simp
next
  case (2 c)
  show ?case by (simp add: is_js_space_def)
next
  case (3 c d cs)
  show ?case
  proof (cases "is_js_space c")
    case True
    note c = this
    show ?thesis
    proof (cases "is_js_space d")
      case True
      then show ?thesis using 3 c by simp
    next
      case False
      then have "spec_collapse (d # cs) = d # spec_collapse cs"
        by (rule hd_spec_collapse)
      then show ?thesis using 3 c False by (simp add: is_js_space_def)
    qed
  next
    case False
    then show ?thesis using 3 by (simp add: single_spaced_Cons)
  qed
qed

lemma collapse_single_spaced: "single_spaced xs \<Longrightarrow> spec_collapse xs = xs"
  by (induction xs rule: spec_collapse.induct) (auto split: if_splits)

lemma remove_keeps: "\<not> is_js_space c \<Longrightarrow>
    spec_remove_adjacent b (c # cs) = c # spec_remove_adjacent (Some c) cs"
  by simp

lemma replace_structural_remove:
  "single_spaced xs \<Longrightarrow>
   spec_remove_adjacent b xs =
     (if (case b of None \<Rightarrow> False | Some p \<Rightarrow> is_structural p)
      then replace_structural (dropWhile is_js_space xs) else replace_structural xs)"
proof (induction xs arbitrary: b)
  case Nil
  show ?case by simp
next
  case (Cons c cs)
  have tail: "single_spaced cs"
    using Cons.prems by (rule single_spaced_tail)
  note IH = Cons.IH [OF tail]
  show ?case
  proof (cases "is_js_space c")
    case False
    then show ?thesis
      using IH [of "Some c"] by (simp add: structural_not_space)
  next
    case True
    then have nostruct: "\<not> is_structural c"
      using structural_not_space by blast
    have rest: "dropWhile is_js_space cs = cs"
      using Cons.prems True by (cases cs) simp_all
    show ?thesis
    proof (cases cs)
      case Nil
      then show ?thesis using True by simp
    next
      case (Cons d ds)
      have d: "\<not> is_js_space d"
        using Cons.prems True Cons by simp
      show ?thesis
        using IH [of "Some c"] True nostruct rest d Cons
        by (auto simp: structural_not_space)
    qed
  qed
qed

lemma single_spaced_remove: "single_spaced xs \<Longrightarrow> single_spaced (spec_remove_adjacent b xs)"
proof (induction xs arbitrary: b)
  case Nil
  show ?case by simp
next
  case (Cons c cs)
  have tail: "single_spaced cs"
    using Cons.prems by (rule single_spaced_tail)
  note IH = Cons.IH [OF tail]
  show ?case
  proof (cases "is_js_space c")
    case False
    then show ?thesis using IH [of "Some c"] by (simp add: single_spaced_Cons)
  next
    case True
    show ?thesis
    proof (cases cs)
      case Nil
      then show ?thesis using True Cons.prems by simp
    next
      case (Cons d ds)
      have d: "\<not> is_js_space d"
        using Cons.prems True Cons by simp
      have "spec_remove_adjacent (Some c) cs = d # spec_remove_adjacent (Some d) ds"
        using d Cons by simp
      then show ?thesis
        using IH [of "Some c"] True d Cons Cons.prems by auto
    qed
  qed
qed

text \<open>Texts in which no white space stands next to a structural character.\<close>

fun no_adjacent :: "code_unit option \<Rightarrow> jsstring \<Rightarrow> bool" where
  "no_adjacent before [] = True"
| "no_adjacent before (c # cs) =
     (\<not> (is_js_space c \<and>
         ((case before of None \<Rightarrow> False | Some b \<Rightarrow> is_structural b) \<or>
          (case cs of [] \<Rightarrow> False | d # ds \<Rightarrow> is_structural d))) \<and>
      no_adjacent (Some c) cs)"

lemma remove_no_adjacent: "no_adjacent b xs \<Longrightarrow> spec_remove_adjacent b xs = xs"
  by (induction xs arbitrary: b) auto

lemma no_adjacent_remove: "single_spaced xs \<Longrightarrow> no_adjacent b (spec_remove_adjacent b xs)"
proof (induction xs arbitrary: b rule: induct_list012)
  case 1
  show ?case by simp
next
  case (2 c)
  show ?case by simp
next
  case (3 c d ds)
  have tail: "single_spaced (d # ds)" and tail2: "single_spaced ds"
    using "3.prems" single_spaced_tail by blast+
  show ?case
  proof (cases "is_js_space c")
    case False
    then show ?thesis using "3.IH"(2) [OF tail, of "Some c"] by simp
  next
    case True
    then have d: "\<not> is_js_space d"
      using "3.prems" by simp
    then have step: "spec_remove_adjacent (Some c) (d # ds) = d # spec_remove_adjacent (Some d) ds"
      by simp
    show ?thesis
      using True d "3.IH"(1) [OF tail2, of "Some d"] "3.IH"(2) [OF tail, of "Some c"]
      by (auto simp: step simp del: spec_remove_adjacent.simps(2))
         (simp_all add: d)
  qed
qed

lemma spec_compress_idem: "spec_compress (spec_compress xs) = spec_compress xs"
proof -
  have ss: "single_spaced (spec_compress xs)"
    unfolding spec_compress_def by (intro single_spaced_remove single_spaced_collapse)
  have "no_adjacent None (spec_compress xs)"
    unfolding spec_compress_def by (intro no_adjacent_remove single_spaced_collapse)
  then show ?thesis
    using ss by (simp add: spec_compress_def [of "spec_compress xs"] collapse_single_spaced remove_no_adjacent)
qed


text \<open>Trimmed texts.\<close>

definition trimmed :: "jsstring \<Rightarrow> bool" where
  "trimmed xs \<longleftrightarrow> xs = [] \<or> (\<not> is_js_space (hd xs) \<and> \<not> is_js_space (last xs))"

lemma dropWhile_id: "xs = [] \<or> \<not> P (hd xs) \<Longrightarrow> dropWhile P xs = xs"
  by (cases xs) auto

lemma trim_id: "trimmed xs \<Longrightarrow> trim xs = xs"
proof (cases "xs = []")
  case True
  then show ?thesis by (simp add: trim_def)
next
  case False
  assume "trimmed xs"
  with False have h: "\<not> is_js_space (hd xs)" and l: "\<not> is_js_space (last xs)"
    by (simp_all add: trimmed_def)
  have "dropWhile is_js_space xs = xs"
    using h by (simp add: dropWhile_id)
  moreover have "dropWhile is_js_space (rev xs) = rev xs"
    using l False by (intro dropWhile_id) (simp add: hd_rev)
  ultimately show ?thesis by (simp add: trim_def)
qed

lemma last_dropWhile: "dropWhile P xs \<noteq> [] \<Longrightarrow> last (dropWhile P xs) = last xs"
  by (induction xs) (auto split: if_splits)

lemma trimmed_trim: "trimmed (trim xs)"
proof (cases "trim xs = []")
  case True
  then show ?thesis by (simp add: trimmed_def)
next
  case False
  define ys where "ys = dropWhile is_js_space xs"
  define zs where "zs = dropWhile is_js_space (rev ys)"
  have t: "trim xs = rev zs"
    by (simp add: trim_def ys_def zs_def)
  with False have zs: "zs \<noteq> []" by simp
  then have ys: "ys \<noteq> []" by (auto simp: zs_def)
  have "\<not> is_js_space (hd zs)"
    using zs unfolding zs_def by (rule hd_dropWhile)
  then have l: "\<not> is_js_space (last (trim xs))"
    using zs by (simp add: t last_rev)
  have "last zs = last (rev ys)"
    using zs unfolding zs_def by (rule last_dropWhile)
  then have "hd (trim xs) = hd ys"
    using zs ys by (simp add: t hd_rev last_rev)
  moreover have "\<not> is_js_space (hd ys)"
    using ys unfolding ys_def by (rule hd_dropWhile)
  ultimately show ?thesis
    using l by (simp add: trimmed_def)
qed

lemma last_spec_collapse:
  "xs \<noteq> [] \<Longrightarrow> \<not> is_js_space (last xs) \<Longrightarrow>
   spec_collapse xs \<noteq> [] \<and> last (spec_collapse xs) = last xs"
  by (induction xs rule: spec_collapse.induct) (auto split: if_splits)

lemma last_spec_remove:
  "xs \<noteq> [] \<Longrightarrow> \<not> is_js_space (last xs) \<Longrightarrow>
   spec_remove_adjacent b xs \<noteq> [] \<and> last (spec_remove_adjacent b xs) = last xs"
proof (induction xs arbitrary: b)
  case Nil
  then show ?case by simp
next
  case (Cons c cs)
  show ?case
  proof (cases "cs = []")
    case True
    then show ?thesis using Cons.prems by simp
  next
    case False
    then have "\<not> is_js_space (last cs)" using Cons.prems by simp
    from Cons.IH [OF False this, of "Some c"] False show ?thesis by simp
  qed
qed

lemma trimmed_spec_compress:
  assumes "trimmed xs" and "xs \<noteq> []"
  shows "spec_compress xs \<noteq> []" and "trimmed (spec_compress xs)"
proof -
  from assms obtain c cs where xs: "xs = c # cs" and c: "\<not> is_js_space c"
    and l: "\<not> is_js_space (last xs)"
    by (cases xs) (auto simp: trimmed_def)
  have col: "spec_collapse xs = c # spec_collapse cs"
    using c xs by (simp add: hd_spec_collapse)
  have "spec_collapse xs \<noteq> [] \<and> last (spec_collapse xs) = last xs"
    using assms(2) l by (rule last_spec_collapse)
  then have "spec_compress xs \<noteq> [] \<and> last (spec_compress xs) = last xs"
    unfolding spec_compress_def using l by (metis last_spec_remove)
  moreover have "hd (spec_compress xs) = c"
    using c by (simp add: spec_compress_def col)
  ultimately show "spec_compress xs \<noteq> []" and "trimmed (spec_compress xs)"
    using c l by (simp_all add: trimmed_def)
qed

text \<open>The text that \<open>compressJSON\<close> computes from a trimmed text.\<close>

lemma compressed_text:
  assumes "trimmed xs" and "xs \<noteq> []"
  shows "trim (replace_structural (replace_spaces xs)) = spec_compress xs"
proof -
  have "replace_structural (replace_spaces xs) = spec_compress xs"
    by (simp add: replace_spaces_collapse spec_compress_def
        replace_structural_remove [OF single_spaced_collapse])
  then show ?thesis
    using trimmed_spec_compress(2) [OF assms] by (simp add: trim_id)
qed

lemma editor_value_validateJSON: "editor_value (validateJSON message_of s) = editor_value s"
  by (simp add: validateJSON_def updateStatistics_def updateJSONStatistics_def Let_def
      split: option.split)

lemma editor_value_compressJSON:
  "editor_value (compressJSON message_of s) =
     (if trim (editor_value s) = [] then editor_value s
      else spec_compress (trim (editor_value s)))"
  by (simp add: compressJSON_def showNotification_def editor_value_validateJSON
      compressed_text trimmed_trim)

lemma validateJSON_again:
  "validateJSON message_of
     ((showNotification a b (validateJSON message_of s))\<lparr>editor_value := editor_value s\<rparr>) =
   showNotification a b (validateJSON message_of s)"
  by (simp add: validateJSON_def updateStatistics_def updateJSONStatistics_def Let_def
      showNotification_def split: option.split)

lemma compressJSON_twice: "compressJSON message_of (compressJSON message_of s) = compressJSON message_of s"
proof (cases "trim (editor_value s) = []")
  case True
  then show ?thesis by (simp add: compressJSON_def showNotification_def)
next
  case False
  define t where "t = spec_compress (trim (editor_value s))"
  define s1 where "s1 = s\<lparr>editor_value := t\<rparr>"
  have first: "compressJSON message_of s =
      showNotification (js ''Whitespace removed successfully!'') (js ''success'')
        (validateJSON message_of s1)"
    using False by (simp add: compressJSON_def compressed_text trimmed_trim t_def s1_def)
  have t: "trimmed t" "t \<noteq> []"
    using trimmed_spec_compress [OF trimmed_trim False] by (simp_all add: t_def)
  have ev: "editor_value (compressJSON message_of s) = t"
    by (simp add: first showNotification_def editor_value_validateJSON s1_def)
  have again: "spec_compress t = t"
    by (simp add: t_def spec_compress_idem)
  have "compressJSON message_of (compressJSON message_of s) =
      showNotification (js ''Whitespace removed successfully!'') (js ''success'')
        (validateJSON message_of ((compressJSON message_of s)\<lparr>editor_value := t\<rparr>))"
    using t by (simp add: compressJSON_def [of _ "compressJSON message_of s"] ev trim_id
        compressed_text again)
  also have "(compressJSON message_of s)\<lparr>editor_value := t\<rparr> =
      (showNotification (js ''Whitespace removed successfully!'') (js ''success'')
        (validateJSON message_of s1))\<lparr>editor_value := editor_value s1\<rparr>"
    by (simp add: first s1_def)
  also have "validateJSON message_of \<dots> =
      showNotification (js ''Whitespace removed successfully!'') (js ''success'')
        (validateJSON message_of s1)"
    by (rule validateJSON_again)
  finally show ?thesis
    by (simp add: first showNotification_def)
qed


text \<open>
  Claim C4.  \<open>compressJSON\<close> is idempotent: applying it a second time changes
  nothing, neither the text of the editor nor any other part of the state.
\<close>

theorem compressJSON_idempotent:
  "compressJSON message_of (compressJSON message_of s) = compressJSON message_of s \<and>
   editor_value (compressJSON message_of (compressJSON message_of s)) =
     editor_value (compressJSON message_of s)"
  by (simp add: compressJSON_twice)

theorem compressJSON_idempotent_witness:
  "editor_value (compressJSON (\<lambda>t. [])
       (compressJSON (\<lambda>t. []) (initial_state\<lparr>editor_value := js ''[ 1 ,  x ]''\<rparr>))) =
     editor_value (compressJSON (\<lambda>t. []) (initial_state\<lparr>editor_value := js ''[ 1 ,  x ]''\<rparr>)) \<and>
   editor_value (compressJSON (\<lambda>t. []) (initial_state\<lparr>editor_value := js ''[ 1 ,  x ]''\<rparr>)) =
     js ''[1,x]''"
proof -
  have "editor_value (compressJSON (\<lambda>t. []) (initial_state\<lparr>editor_value := js ''[ 1 ,  x ]''\<rparr>)) =
      js ''[1,x]''"
    by (simp add: editor_value_compressJSON spec_compress_def js_def trim_def is_js_space_def
        is_structural_def)
  then show ?thesis
    using compressJSON_idempotent
      [of "\<lambda>t. []" "initial_state\<lparr>editor_value := js ''[ 1 ,  x ]''\<rparr>"]
    by simp
qed

text \<open>
  Claim C5, as the code has it.  \<open>compressJSON\<close> trims the text first.  When the
  trimmed text is empty it leaves the text of the editor as it is (and shows an error).
  Otherwise the new text is the transform of the specification applied to the trimmed
  text: runs of white space collapsed to one space, then white space next to one of
  \<open>{ } [ ] , :\<close> removed.  The new text does not depend on \<open>JSON.parse\<close>.
\<close>

theorem compressJSON_is_spec_on_trimmed:
  "editor_value (compressJSON message_of s) =
     (if trim (editor_value s) = [] then editor_value s
      else spec_compress (trim (editor_value s)))"
  by (rule editor_value_compressJSON)

theorem compressJSON_is_spec_on_trimmed_witness:
  "editor_value (compressJSON (\<lambda>t. []) (initial_state\<lparr>editor_value := js '' { a : 1 }  ''\<rparr>)) =
     js ''{a:1}''"
proof -
  have "spec_compress (trim (js '' { a : 1 }  '')) = js ''{a:1}''" and "trim (js '' { a : 1 }  '') \<noteq> []"
    by (simp_all add: spec_compress_def js_def trim_def is_js_space_def is_structural_def)
  then show ?thesis
    using compressJSON_is_spec_on_trimmed
      [of "\<lambda>t. []" "initial_state\<lparr>editor_value := js '' { a : 1 }  ''\<rparr>"]
    by simp
qed

text \<open>
  Without the trimming the claim fails: for the text \<open>" a"\<close> the transform of the
  specification keeps the leading space, \<open>compressJSON\<close> removes it.
\<close>

theorem compressJSON_not_spec_counterexample:
  "editor_value (compressJSON (\<lambda>t. []) (initial_state\<lparr>editor_value := js '' a''\<rparr>)) \<noteq>
     spec_compress (editor_value (initial_state\<lparr>editor_value := js '' a''\<rparr>))"
  by (simp add: editor_value_compressJSON spec_compress_def js_def trim_def is_js_space_def
      is_structural_def)

end
